theory Spec2Isabelle
  imports Complex_Main "HOL-Library.Sublist"
begin

section \<open>Python values\<close>

text \<open>
  The service passes JSON-compatible values around under the Python type \<open>Any\<close>.
  \<open>pyval\<close> keeps the distinctions the source tests with \<open>isinstance\<close> and \<open>is None\<close>:
  \<open>None\<close>, \<open>bool\<close>, \<open>int\<close>, \<open>float\<close>, \<open>str\<close>, \<open>list\<close>, \<open>tuple\<close>, \<open>dict\<close>, and
  \<open>PObject\<close> for any other object, represented by the text \<open>str\<close> gives for it.
  A \<open>dict\<close> is an association list in insertion order. A \<open>float\<close> is modelled by the
  real number it denotes (no NaN, no infinities, no rounding); an \<open>int\<close> is unbounded.
\<close>

datatype pyval =
    PNone
  | PBool bool
  | PInt int
  | PFloat real
  | PStr string
  | PList "pyval list"
  | PTuple "pyval list"
  | PDict "(string \<times> pyval) list"
  | PObject string

type_synonym pydict = "(string \<times> pyval) list"

text \<open>\<open>d[k] = v\<close>: an existing key keeps its position, a new key goes to the end.\<close>

fun dict_set :: "('k \<times> 'v) list \<Rightarrow> 'k \<Rightarrow> 'v \<Rightarrow> ('k \<times> 'v) list" where
  "dict_set [] k v = [(k, v)]"
| "dict_set ((k', v') # d) k v = (if k' = k then (k, v) # d else (k', v') # dict_set d k v)"

text \<open>\<open>k in d\<close>.\<close>

definition dict_contains :: "('k \<times> 'v) list \<Rightarrow> 'k \<Rightarrow> bool" where
  "dict_contains d k = (k \<in> set (map fst d))"

text \<open>\<open>isinstance(v, (int, float))\<close>; in Python \<open>bool\<close> is a subclass of \<open>int\<close>.\<close>

fun is_int_or_float :: "pyval \<Rightarrow> bool" where
  "is_int_or_float (PBool _) = True"
| "is_int_or_float (PInt _) = True"
| "is_int_or_float (PFloat _) = True"
| "is_int_or_float _ = False"

text \<open>
  \<open>str.lower()\<close> on the ASCII letters; \<open>char\<close> is a byte, and the bytes of a code point
  beyond ASCII are left as they are.
\<close>

definition lower_char :: "char \<Rightarrow> char" where
  "lower_char c =
     (let n = (of_char c :: nat) in if 65 \<le> n \<and> n \<le> 90 then char_of (n + 32) else c)"

definition str_lower :: "string \<Rightarrow> string" where
  "str_lower s = map lower_char s"

section \<open>Exceptions (domain/exceptions.py)\<close>

text \<open>
  \<open>exc_kind\<close> is the class of an exception: the six subclasses of \<open>DomainException\<close>,
  \<open>DomainException\<close> itself, and \<open>Builtin name\<close> for every other subclass of Python's
  \<open>Exception\<close> (\<open>ValueError\<close>, \<open>NotImplementedError\<close>, \<open>OverflowError\<close>, ...). The six
  domain classes are siblings, so \<open>isinstance\<close> against one of them is equality of kinds.
  \<open>py_exception\<close> models an instance of \<open>Exception\<close>: \<open>message\<close> is what \<open>str(e)\<close>
  returns (a \<open>DomainException\<close> passes its message to \<open>Exception.__init__\<close>), and
  \<open>details\<close> is the optional attribute, \<open>None\<close> for a builtin exception.
\<close>

datatype exc_kind =
    ModelPredictionError
  | PreprocessingError
  | PostprocessingError
  | PredictionServiceError
  | InvalidFeatureError
  | ModelNotLoadedError
  | DomainException
  | Builtin string

record py_exception =
  kind :: exc_kind
  message :: string
  details :: "string option"

definition py_str :: "py_exception \<Rightarrow> string" where
  "py_str e = message e"

text \<open>\<open>e.__class__.__name__\<close>.\<close>

fun class_name :: "exc_kind \<Rightarrow> string" where
  "class_name ModelPredictionError = ''ModelPredictionError''"
| "class_name PreprocessingError = ''PreprocessingError''"
| "class_name PostprocessingError = ''PostprocessingError''"
| "class_name PredictionServiceError = ''PredictionServiceError''"
| "class_name InvalidFeatureError = ''InvalidFeatureError''"
| "class_name ModelNotLoadedError = ''ModelNotLoadedError''"
| "class_name DomainException = ''DomainException''"
| "class_name (Builtin name) = name"

definition ValueError :: "string \<Rightarrow> py_exception" where
  "ValueError msg = \<lparr>kind = Builtin ''ValueError'', message = msg, details = None\<rparr>"

definition OverflowError :: "string \<Rightarrow> py_exception" where
  "OverflowError msg = \<lparr>kind = Builtin ''OverflowError'', message = msg, details = None\<rparr>"

text \<open>
  \<open>float(v)\<close> for \<open>v\<close> an \<open>int\<close>, \<open>bool\<close> or \<open>float\<close>. An \<open>int\<close> whose nearest double
  is not finite raises \<open>OverflowError\<close>: the largest double is \<open>2^1024 - 2^971\<close> and
  rounding to nearest reaches \<open>2^1024\<close> from \<open>2^1024 - 2^970\<close> on. Below that bound
  the conversion is modelled as exact.
\<close>

definition float_overflow_bound :: int where
  "float_overflow_bound = 2 ^ 1024 - 2 ^ 970"

fun py_float :: "pyval \<Rightarrow> py_exception + real" where
  "py_float (PBool b) = Inr (if b then 1 else 0)"
| "py_float (PInt n) =
     (if \<bar>n\<bar> < float_overflow_bound then Inr (real_of_int n)
      else Inl (OverflowError ''int too large to convert to float''))"
| "py_float (PFloat r) = Inr r"
| "py_float _ = Inl \<lparr>kind = Builtin ''TypeError'',
     message = ''float() argument must be a string or a real number'', details = None\<rparr>"

section \<open>Entities (domain/entities.py)\<close>

record PredictionRequest =
  features :: pydict

text \<open>\<open>PredictionRequest(features=fs)\<close>: the constructor followed by \<open>__post_init__\<close>.\<close>

definition PredictionRequest_init :: "pydict \<Rightarrow> py_exception + PredictionRequest" where
  "PredictionRequest_init fs =
     (if fs = [] then Inl (ValueError ''Features dictionary cannot be empty'')
      else Inr \<lparr>features = fs\<rparr>)"

record PredictionResponse =
  prediction :: pyval
  confidence :: real
  model_version :: string

definition PredictionResponse_init ::
  "pyval \<Rightarrow> real \<Rightarrow> string \<Rightarrow> py_exception + PredictionResponse" where
  "PredictionResponse_init p c v =
     (if \<not> (0 \<le> c \<and> c \<le> 1) then Inl (ValueError ''Confidence must be between 0.0 and 1.0'')
      else if v = [] then Inl (ValueError ''Model version cannot be empty'')
      else Inr \<lparr>prediction = p, confidence = c, model_version = v\<rparr>)"

section \<open>The orchestrator (application/services.py)\<close>

text \<open>
  The three collaborators are injected, so the orchestrator is modelled over arbitrary
  ones. A collaborator method may fail and may have effects: it takes the state \<open>'s\<close> of
  the world and returns its result (\<open>Inl\<close> the exception raised) with the new state.
\<close>

type_synonym ('a, 's) eff = "'s \<Rightarrow> (py_exception + 'a) \<times> 's"

record 's PredictionServiceImpl =
  pre_transform :: "pydict \<Rightarrow> (pyval, 's) eff"
  m_predict :: "pyval \<Rightarrow> (pyval, 's) eff"
  m_version :: "(string, 's) eff"
  post_transform :: "pyval \<Rightarrow> (pyval, 's) eff"

text \<open>The calls made on collaborators, recorded in the order they are made.\<close>

datatype call =
    PreprocessorTransform
  | ModelPredict
  | ModelVersion
  | PostprocessorTransform
  | ServicePredict

definition calculate_confidence :: "pyval \<Rightarrow> pyval \<Rightarrow> real" where
  "calculate_confidence raw_prediction processed_output = 0.8"

definition domain_exception :: "exc_kind \<Rightarrow> string \<Rightarrow> string option \<Rightarrow> py_exception" where
  "domain_exception k msg d = \<lparr>kind = k, message = msg, details = d\<rparr>"

text \<open>
  The inner part of \<open>predict\<close>: the three \<open>try\<close> blocks of steps 1 to 3, each with its
  own \<open>except Exception\<close>, then steps 4 and 5. The result carries the final state and
  the calls made. Logging is left out.
\<close>

definition predict_steps ::
  "'s PredictionServiceImpl \<Rightarrow> PredictionRequest \<Rightarrow> 's \<Rightarrow>
     (py_exception + PredictionResponse) \<times> 's \<times> call list" where
  "predict_steps svc request s =
     (case pre_transform svc (features request) s of
        (Inl e, s1) \<Rightarrow>
          (Inl (domain_exception PreprocessingError
                  ''Failed to preprocess input features'' (Some (py_str e))),
           s1, [PreprocessorTransform])
      | (Inr processed_input, s1) \<Rightarrow>
     (case m_predict svc processed_input s1 of
        (Inl e, s2) \<Rightarrow>
          (Inl (domain_exception ModelPredictionError
                  ''Failed to execute model prediction'' (Some (py_str e))),
           s2, [PreprocessorTransform, ModelPredict])
      | (Inr raw_prediction, s2) \<Rightarrow>
     (case m_version svc s2 of
        (Inl e, s3) \<Rightarrow>
          (Inl (domain_exception ModelPredictionError
                  ''Failed to execute model prediction'' (Some (py_str e))),
           s3, [PreprocessorTransform, ModelPredict, ModelVersion])
      | (Inr version, s3) \<Rightarrow>
     (case post_transform svc raw_prediction s3 of
        (Inl e, s4) \<Rightarrow>
          (Inl (domain_exception PostprocessingError
                  ''Failed to postprocess model output'' (Some (py_str e))),
           s4, [PreprocessorTransform, ModelPredict, ModelVersion, PostprocessorTransform])
      | (Inr processed_output, s4) \<Rightarrow>
          (PredictionResponse_init processed_output
             (calculate_confidence raw_prediction processed_output) version,
           s4, [PreprocessorTransform, ModelPredict, ModelVersion, PostprocessorTransform])))))"

text \<open>
  The two handlers of the outer \<open>try\<close>: the three step kinds are re-raised, anything
  else is wrapped.
\<close>

definition predict_except :: "py_exception \<Rightarrow> py_exception" where
  "predict_except e =
     (if kind e = PreprocessingError \<or> kind e = ModelPredictionError
         \<or> kind e = PostprocessingError
      then e
      else domain_exception PredictionServiceError
             ''Unexpected error during prediction'' (Some (py_str e)))"

definition predict ::
  "'s PredictionServiceImpl \<Rightarrow> PredictionRequest \<Rightarrow> 's \<Rightarrow>
     (py_exception + PredictionResponse) \<times> 's \<times> call list" where
  "predict svc request s =
     (case predict_steps svc request s of
        (Inl e, s', calls) \<Rightarrow> (Inl (predict_except e), s', calls)
      | (Inr response, s', calls) \<Rightarrow> (Inr response, s', calls))"

text \<open>
  Collaborators that keep a log of their own: the state is paired with the list of
  the calls received so far, and each method of \<open>logged svc\<close> appends its call to
  that list when it is invoked and otherwise does what the method of \<open>svc\<close> does.
  The log is written by the collaborators, not by \<open>predict\<close>.
\<close>

definition logged :: "'s PredictionServiceImpl \<Rightarrow> ('s \<times> call list) PredictionServiceImpl" where
  "logged svc =
     \<lparr>pre_transform = (\<lambda>fs (s, seen).
        case pre_transform svc fs s of (r, s') \<Rightarrow> (r, (s', seen @ [PreprocessorTransform]))),
      m_predict = (\<lambda>processed_input (s, seen).
        case m_predict svc processed_input s of (r, s') \<Rightarrow> (r, (s', seen @ [ModelPredict]))),
      m_version = (\<lambda>(s, seen).
        case m_version svc s of (r, s') \<Rightarrow> (r, (s', seen @ [ModelVersion]))),
      post_transform = (\<lambda>raw_output (s, seen).
        case post_transform svc raw_output s of
          (r, s') \<Rightarrow> (r, (s', seen @ [PostprocessorTransform])))\<rparr>"

section \<open>The default processors (infrastructure/processors.py)\<close>

subsection \<open>DefaultPreprocessor\<close>

text \<open>
  \<open>_validate_features\<close>: the loop over \<open>required_features\<close>, which raises at the first
  feature that is missing or \<open>None\<close>.
\<close>

definition required_features :: "string list" where
  "required_features = [''product_id'']"

fun validate_features_loop :: "string list \<Rightarrow> pydict \<Rightarrow> py_exception + unit" where
  "validate_features_loop [] fs = Inr ()"
| "validate_features_loop (feature # rest) fs =
     (if \<not> dict_contains fs feature
      then Inl (domain_exception PreprocessingError
                  (''Required feature missing: '' @ feature) None)
      else if map_of fs feature = Some PNone
      then Inl (domain_exception PreprocessingError
                  (''Feature cannot be null: '' @ feature) None)
      else validate_features_loop rest fs)"

definition validate_features :: "pydict \<Rightarrow> py_exception + unit" where
  "validate_features fs = validate_features_loop required_features fs"

text \<open>
  \<open>_apply_feature_mapping\<close>: with an empty mapping the features are returned as they
  are; otherwise each item is stored under \<open>feature_mapping.get(name, name)\<close>.
\<close>

fun apply_feature_mapping_loop ::
  "(string \<times> string) list \<Rightarrow> pydict \<Rightarrow> pydict \<Rightarrow> pydict" where
  "apply_feature_mapping_loop fm [] mapped = mapped"
| "apply_feature_mapping_loop fm ((original_name, v) # rest) mapped =
     apply_feature_mapping_loop fm rest
       (dict_set mapped
          (case map_of fm original_name of None \<Rightarrow> original_name | Some n \<Rightarrow> n) v)"

definition apply_feature_mapping :: "(string \<times> string) list \<Rightarrow> pydict \<Rightarrow> pydict" where
  "apply_feature_mapping fm fs =
     (if fm = [] then fs else apply_feature_mapping_loop fm fs [])"

text \<open>
  The list branch of \<open>_normalize_features\<close>:
  \<open>[float(x) for x in value if isinstance(x, (int, float))]\<close>.
\<close>

fun float_items :: "pyval list \<Rightarrow> py_exception + pyval list" where
  "float_items [] = Inr []"
| "float_items (x # xs) =
     (if is_int_or_float x
      then (case py_float x of
              Inl e \<Rightarrow> Inl e
            | Inr r \<Rightarrow> (case float_items xs of
                          Inl e \<Rightarrow> Inl e
                        | Inr rs \<Rightarrow> Inr (PFloat r # rs)))
      else float_items xs)"

text \<open>The \<open>if\<close>/\<open>elif\<close> chain of \<open>_normalize_features\<close> on one value.\<close>

definition normalize_value :: "pyval \<Rightarrow> py_exception + pyval" where
  "normalize_value v =
     (if is_int_or_float v
      then (case py_float v of Inl e \<Rightarrow> Inl e | Inr r \<Rightarrow> Inr (PFloat r))
      else (case v of
              PStr s \<Rightarrow> Inr (PStr (str_lower s))
            | PList xs \<Rightarrow> (case float_items xs of Inl e \<Rightarrow> Inl e | Inr rs \<Rightarrow> Inr (PList rs))
            | _ \<Rightarrow> Inr v))"

fun normalize_features_loop :: "pydict \<Rightarrow> pydict \<Rightarrow> py_exception + pydict" where
  "normalize_features_loop [] normalized = Inr normalized"
| "normalize_features_loop ((feature_name, v) # rest) normalized =
     (case normalize_value v of
        Inl e \<Rightarrow> Inl e
      | Inr v' \<Rightarrow> normalize_features_loop rest (dict_set normalized feature_name v'))"

definition normalize_features :: "pydict \<Rightarrow> py_exception + pydict" where
  "normalize_features fs = normalize_features_loop fs []"

text \<open>
  \<open>DefaultPreprocessor.transform\<close>, for a preprocessor built with the feature mapping
  \<open>fm\<close>: the three steps inside one \<open>try\<close>, whose \<open>except Exception\<close> wraps whatever
  was raised, a \<open>PreprocessingError\<close> of \<open>_validate_features\<close> included.
\<close>

definition DefaultPreprocessor_steps ::
  "(string \<times> string) list \<Rightarrow> pydict \<Rightarrow> py_exception + pyval" where
  "DefaultPreprocessor_steps fm fs =
     (case validate_features fs of
        Inl e \<Rightarrow> Inl e
      | Inr _ \<Rightarrow>
          (case normalize_features (apply_feature_mapping fm fs) of
             Inl e \<Rightarrow> Inl e
           | Inr processed_features \<Rightarrow> Inr (PDict processed_features)))"

definition DefaultPreprocessor_transform ::
  "(string \<times> string) list \<Rightarrow> pydict \<Rightarrow> py_exception + pyval" where
  "DefaultPreprocessor_transform fm fs =
     (case DefaultPreprocessor_steps fm fs of
        Inl e \<Rightarrow> Inl (domain_exception PreprocessingError
                        ''Failed to preprocess input features'' (Some (py_str e)))
      | Inr processed_features \<Rightarrow> Inr processed_features)"

subsection \<open>DefaultPostprocessor\<close>

definition validate_output :: "pyval \<Rightarrow> py_exception + unit" where
  "validate_output output =
     (if output = PNone
      then Inl (domain_exception PostprocessingError ''Model output cannot be null'' None)
      else Inr ())"

text \<open>
  \<open>_format_output\<close>. The last branch takes \<open>str(output)\<close>: the text itself for a
  \<open>str\<close>, the representing text for another object (\<open>None\<close> was rejected before).
\<close>

fun format_output :: "pyval \<Rightarrow> py_exception + pydict" where
  "format_output (PDict d) = Inr d"
| "format_output (PList xs) = Inr [(''forecast'', PList xs)]"
| "format_output (PTuple xs) = Inr [(''forecast'', PList xs)]"
| "format_output (PBool b) =
     (case py_float (PBool b) of Inl e \<Rightarrow> Inl e | Inr r \<Rightarrow> Inr [(''prediction'', PFloat r)])"
| "format_output (PInt n) =
     (case py_float (PInt n) of Inl e \<Rightarrow> Inl e | Inr r \<Rightarrow> Inr [(''prediction'', PFloat r)])"
| "format_output (PFloat x) =
     (case py_float (PFloat x) of Inl e \<Rightarrow> Inl e | Inr r \<Rightarrow> Inr [(''prediction'', PFloat r)])"
| "format_output (PStr s) = Inr [(''result'', PStr s)]"
| "format_output (PObject s) = Inr [(''result'', PStr s)]"
| "format_output PNone = Inr [(''result'', PStr ''None'')]"

definition enrich_output :: "string \<Rightarrow> pydict \<Rightarrow> pydict" where
  "enrich_output output_format formatted_output =
     dict_set formatted_output ''format'' (PStr output_format)"

definition DefaultPostprocessor_steps :: "string \<Rightarrow> pyval \<Rightarrow> py_exception + pyval" where
  "DefaultPostprocessor_steps output_format raw_output =
     (case validate_output raw_output of
        Inl e \<Rightarrow> Inl e
      | Inr _ \<Rightarrow>
          (case format_output raw_output of
             Inl e \<Rightarrow> Inl e
           | Inr formatted_output \<Rightarrow>
               Inr (PDict (enrich_output output_format formatted_output))))"

definition DefaultPostprocessor_transform :: "string \<Rightarrow> pyval \<Rightarrow> py_exception + pyval" where
  "DefaultPostprocessor_transform output_format raw_output =
     (case DefaultPostprocessor_steps output_format raw_output of
        Inl e \<Rightarrow> Inl (domain_exception PostprocessingError
                        ''Failed to postprocess model output'' (Some (py_str e)))
      | Inr enriched_output \<Rightarrow> Inr enriched_output)"

text \<open>A collaborator method without effects, as both default processors are.\<close>

definition pure_eff :: "(py_exception + 'a) \<Rightarrow> ('a, 's) eff" where
  "pure_eff r s = (r, s)"

section \<open>The HTTP boundary (interface/schemas.py, interface/controllers.py, main.py)\<close>

record PredictionRequestSchema =
  schema_features :: pydict

definition validate_features_not_empty :: "pydict \<Rightarrow> py_exception + pydict" where
  "validate_features_not_empty v =
     (if v = [] then Inl (ValueError ''Features dictionary cannot be empty'') else Inr v)"

text \<open>
  Building the request schema from a body runs the validator of \<open>features\<close>; the
  validator's exception stands for the validation error the schema library reports.
\<close>

definition PredictionRequestSchema_init :: "pydict \<Rightarrow> py_exception + PredictionRequestSchema" where
  "PredictionRequestSchema_init fs =
     (case validate_features_not_empty fs of
        Inl e \<Rightarrow> Inl e
      | Inr v \<Rightarrow> Inr \<lparr>schema_features = v\<rparr>)"

record PredictionResponseSchema =
  schema_prediction :: pyval
  schema_confidence :: real
  schema_model_version :: string

text \<open>The response schema declares \<open>confidence\<close> with \<open>ge=0.0\<close> and \<open>le=1.0\<close>.\<close>

definition PredictionResponseSchema_init ::
  "pyval \<Rightarrow> real \<Rightarrow> string \<Rightarrow> py_exception + PredictionResponseSchema" where
  "PredictionResponseSchema_init p c v =
     (if 0 \<le> c \<and> c \<le> 1
      then Inr \<lparr>schema_prediction = p, schema_confidence = c, schema_model_version = v\<rparr>
      else Inl \<lparr>kind = Builtin ''ValidationError'',
                message = ''1 validation error for PredictionResponseSchema'',
                details = None\<rparr>)"

record HTTPException =
  status_code :: nat
  detail :: pyval

definition format_error_response :: "py_exception \<Rightarrow> pyval" where
  "format_error_response exception =
     PDict [(''error'', PStr (class_name (kind exception))),
            (''message'', PStr (message exception)),
            (''details'', (case details exception of None \<Rightarrow> PNone | Some d \<Rightarrow> PStr d))]"

text \<open>The \<open>except\<close> clauses of \<open>post_predict\<close>, tried in the order of the source.\<close>

definition post_predict_except :: "py_exception \<Rightarrow> HTTPException" where
  "post_predict_except e =
     (if kind e = PreprocessingError \<or> kind e = InvalidFeatureError
      then \<lparr>status_code = 400, detail = format_error_response e\<rparr>
      else if kind e = ModelNotLoadedError \<or> kind e = ModelPredictionError
      then \<lparr>status_code = 503, detail = format_error_response e\<rparr>
      else if kind e = PostprocessingError
      then \<lparr>status_code = 502, detail = format_error_response e\<rparr>
      else if kind e = PredictionServiceError
      then \<lparr>status_code = 500, detail = format_error_response e\<rparr>
      else \<lparr>status_code = 500,
            detail = PDict [(''error'', PStr ''InternalServerError''),
                            (''message'', PStr ''An unexpected error occurred''),
                            (''details'', PStr (py_str e))]\<rparr>)"

text \<open>
  \<open>MCPPredictController.post_predict\<close> over an arbitrary prediction service: a function
  from the domain request and the state to a result, the new state and the calls it
  made. The controller's own call of the service is recorded in front of them.
\<close>

type_synonym 's PredictionService =
  "PredictionRequest \<Rightarrow> 's \<Rightarrow> (py_exception + PredictionResponse) \<times> 's \<times> call list"

definition post_predict ::
  "'s PredictionService \<Rightarrow> PredictionRequestSchema \<Rightarrow> 's \<Rightarrow>
     (HTTPException + PredictionResponseSchema) \<times> 's \<times> call list" where
  "post_predict prediction_service request s =
     (case PredictionRequest_init (schema_features request) of
        Inl e \<Rightarrow> (Inl (post_predict_except e), s, [])
      | Inr domain_request \<Rightarrow>
          (case prediction_service domain_request s of
             (Inl e, s', calls) \<Rightarrow> (Inl (post_predict_except e), s', ServicePredict # calls)
           | (Inr domain_response, s', calls) \<Rightarrow>
               (case PredictionResponseSchema_init (prediction domain_response)
                       (confidence domain_response) (model_version domain_response) of
                  Inl e \<Rightarrow> (Inl (post_predict_except e), s', ServicePredict # calls)
                | Inr response \<Rightarrow> (Inr response, s', ServicePredict # calls))))"

text \<open>
  The \<open>/predict\<close> route of main.py: without a controller it answers 503, otherwise it
  hands the request to the controller.
\<close>

definition predict_route ::
  "'s PredictionService option \<Rightarrow> PredictionRequestSchema \<Rightarrow> 's \<Rightarrow>
     (HTTPException + PredictionResponseSchema) \<times> 's \<times> call list" where
  "predict_route prediction_controller request s =
     (case prediction_controller of
        None \<Rightarrow>
          (Inl \<lparr>status_code = 503,
                detail = PDict [(''error'', PStr ''ServiceUnavailable''),
                                (''message'', PStr ''Prediction service not initialized''),
                                (''details'', PStr
                                   ''Server is starting up or encountered initialization error'')]\<rparr>,
           s, [])
      | Some prediction_service \<Rightarrow> post_predict prediction_service request s)"

text \<open>
  A request at the boundary. The route declares its parameter as
  \<open>PredictionRequestSchema\<close>, so the web framework builds the schema from the body
  first and calls the route only when that succeeded; \<open>Rejected\<close> is the framework's
  answer to a body that failed validation, \<open>Handled\<close> what the route returned or raised.
\<close>

datatype boundary_result =
    Rejected py_exception
  | Handled "HTTPException + PredictionResponseSchema"

definition handle_predict_request ::
  "'s PredictionService option \<Rightarrow> pydict \<Rightarrow> 's \<Rightarrow> boundary_result \<times> 's \<times> call list" where
  "handle_predict_request prediction_controller body_features s =
     (case PredictionRequestSchema_init body_features of
        Inl e \<Rightarrow> (Rejected e, s, [])
      | Inr request \<Rightarrow>
          (case predict_route prediction_controller request s of
             (r, s', calls) \<Rightarrow> (Handled r, s', calls)))"

text \<open>
  The status table of the specification (section 6), written from its words: the
  status the boundary is to answer for each kind of error, 500 for a kind it does not
  list.
\<close>

definition status_table :: "exc_kind \<Rightarrow> nat" where
  "status_table k =
     (case k of
        PreprocessingError \<Rightarrow> 400
      | InvalidFeatureError \<Rightarrow> 400
      | ModelNotLoadedError \<Rightarrow> 503
      | ModelPredictionError \<Rightarrow> 503
      | PostprocessingError \<Rightarrow> 502
      | PredictionServiceError \<Rightarrow> 500
      | _ \<Rightarrow> 500)"

section \<open>Example collaborators\<close>

text \<open>
  The end-to-end scenario of the specification: the default preprocessor without a
  feature mapping, a model stub that returns \<open>[150, 180, 200]\<close> and reports version
  \<open>v1.0.0\<close>, and the default postprocessor with its default output format.
\<close>

definition example_features :: pydict where
  "example_features =
     [(''product_id'', PStr ''ABC123''),
      (''historical_sales'', PList [PInt 100, PInt 120, PInt 95]),
      (''season'', PStr ''Winter'')]"

definition example_service :: "unit PredictionServiceImpl" where
  "example_service =
     \<lparr>pre_transform = (\<lambda>fs. pure_eff (DefaultPreprocessor_transform [] fs)),
      m_predict = (\<lambda>processed_input. pure_eff (Inr (PList [PInt 150, PInt 180, PInt 200]))),
      m_version = pure_eff (Inr ''v1.0.0''),
      post_transform =
        (\<lambda>raw_output. pure_eff (DefaultPostprocessor_transform ''json'' raw_output))\<rparr>"

text \<open>
  Collaborators of which the one called by \<open>c\<close> raises \<open>e\<close> and the others succeed;
  the model reports version \<open>v\<close>.
\<close>

definition failing_at :: "call \<Rightarrow> py_exception \<Rightarrow> string \<Rightarrow> unit PredictionServiceImpl" where
  "failing_at c e v =
     \<lparr>pre_transform =
        (\<lambda>fs. pure_eff (if c = PreprocessorTransform then Inl e else Inr (PDict fs))),
      m_predict =
        (\<lambda>processed_input. pure_eff (if c = ModelPredict then Inl e else Inr (PInt 42))),
      m_version = pure_eff (if c = ModelVersion then Inl e else Inr v),
      post_transform =
        (\<lambda>raw_output. pure_eff (if c = PostprocessorTransform then Inl e
                                 else Inr (PDict [(''prediction'', raw_output)])))\<rparr>"

text \<open>An exception of a builtin class, as a stub collaborator may raise it.\<close>

definition not_implemented :: py_exception where
  "not_implemented =
     \<lparr>kind = Builtin ''NotImplementedError'', message = ''not yet implemented'',
      details = None\<rparr>"

text \<open>An exception of one of the three named kinds, as a collaborator may raise it.\<close>

definition bad_output :: py_exception where
  "bad_output =
     \<lparr>kind = PostprocessingError, message = ''bad output'', details = Some ''shape''\<rparr>"

section \<open>Results\<close>

text \<open>
  C9. \<open>PredictionResponse\<close> cannot be constructed with a confidence above 1.0 or below
  0.0 (1.5 and -0.1 among them), nor with an empty model version; with a non-empty
  model version it is constructed at both ends 0.0 and 1.0 of the range.
\<close>

theorem PredictionResponse_validation:
  "(1 < c \<or> c < 0 \<longrightarrow> PredictionResponse_init p c v
        = Inl (ValueError ''Confidence must be between 0.0 and 1.0''))
   \<and> (\<exists>e. PredictionResponse_init p 1.5 v = Inl e)
   \<and> (\<exists>e. PredictionResponse_init p (- 0.1) v = Inl e)
   \<and> (v \<noteq> [] \<longrightarrow> PredictionResponse_init p 0 v
        = Inr \<lparr>prediction = p, confidence = 0, model_version = v\<rparr>)
   \<and> (v \<noteq> [] \<longrightarrow> PredictionResponse_init p 1 v
        = Inr \<lparr>prediction = p, confidence = 1, model_version = v\<rparr>)
   \<and> (\<exists>e. PredictionResponse_init p c [] = Inl e)"
  by (auto simp: PredictionResponse_init_def)

theorem PredictionResponse_validation_witness:
  "(1 < (1.5::real) \<or> (1.5::real) < 0)
   \<and> PredictionResponse_init (PInt 7) 1.5 ''v1''
        = Inl (ValueError ''Confidence must be between 0.0 and 1.0'')
   \<and> ''v1'' \<noteq> []
   \<and> PredictionResponse_init (PInt 7) 0 ''v1''
        = Inr \<lparr>prediction = PInt 7, confidence = 0, model_version = ''v1''\<rparr>
   \<and> PredictionResponse_init (PInt 7) 1 ''v1''
        = Inr \<lparr>prediction = PInt 7, confidence = 1, model_version = ''v1''\<rparr>"
  using PredictionResponse_validation [of "1.5" "PInt 7" "''v1''"] by simp

text \<open>
  C6. The confidence computation is a function of the raw prediction and the processed
  output alone; it returns the constant 0.8 for every pair, which lies in [0, 1].
\<close>

theorem calculate_confidence_range:
  "calculate_confidence raw_prediction processed_output = 0.8
   \<and> 0 \<le> calculate_confidence raw_prediction processed_output
   \<and> calculate_confidence raw_prediction processed_output \<le> 1"
  by (simp add: calculate_confidence_def)

text \<open>
  C2. When the preprocessor's \<open>transform\<close> raises an exception \<open>e\<close> of any kind,
  \<open>predict\<close> raises a \<open>PreprocessingError\<close> whose detail is \<open>str(e)\<close>, never a
  \<open>ModelPredictionError\<close> or a \<open>PostprocessingError\<close>; the only call made is the one
  on the preprocessor, so neither the model nor the postprocessor is invoked.
\<close>

theorem preprocessor_failure:
  assumes "pre_transform svc (features request) s = (Inl e, s1)"
  shows "\<exists>err. predict svc request s = (Inl err, s1, [PreprocessorTransform])
           \<and> kind err = PreprocessingError
           \<and> message err = ''Failed to preprocess input features''
           \<and> details err = Some (py_str e)
           \<and> kind err \<noteq> ModelPredictionError \<and> kind err \<noteq> PostprocessingError"
  using assms
  by (simp add: predict_def predict_steps_def predict_except_def domain_exception_def)

theorem preprocessor_failure_witness:
  "pre_transform (failing_at PreprocessorTransform not_implemented ''v1'')
       (features \<lparr>features = example_features\<rparr>) () = (Inl not_implemented, ())
   \<and> predict (failing_at PreprocessorTransform not_implemented ''v1'')
       \<lparr>features = example_features\<rparr> ()
      = (Inl \<lparr>kind = PreprocessingError, message = ''Failed to preprocess input features'',
              details = Some ''not yet implemented''\<rparr>, (), [PreprocessorTransform])"
proof -
  let ?svc = "failing_at PreprocessorTransform not_implemented ''v1''"
  let ?req = "\<lparr>features = example_features\<rparr>"
  have h: "pre_transform ?svc (features ?req) () = (Inl not_implemented, ())"
    by (simp add: failing_at_def pure_eff_def)
  from preprocessor_failure [OF h] obtain err where
    "predict ?svc ?req () = (Inl err, (), [PreprocessorTransform])"
    "kind err = PreprocessingError"
    "message err = ''Failed to preprocess input features''"
    "details err = Some (py_str not_implemented)"
    by blast
  then show ?thesis
    using h by (cases err) (simp add: py_str_def not_implemented_def)
qed

text \<open>
  C3. Run \<open>predict\<close> on collaborators that log the calls they receive, from an empty
  log. The log they leave is an initial part of: preprocessor transform, model
  predict, model version, postprocessor transform. So no collaborator is invoked
  twice or out of order, and the preprocessor is invoked exactly once. The log is
  the list of calls \<open>predict\<close> reports, and result and state are those of the run
  without logging. A \<open>ModelPredictionError\<close> leaves \<open>predict\<close> only when the
  preprocessor's transform, invoked in the initial state, had succeeded.
\<close>

theorem predict_step_order:
  "(case predict (logged svc) request (s, []) of (r, (s', seen), calls) \<Rightarrow>
      seen = calls
      \<and> prefix seen [PreprocessorTransform, ModelPredict, ModelVersion, PostprocessorTransform]
      \<and> count_list seen PreprocessorTransform = 1
      \<and> (r, s', calls) = predict svc request s
      \<and> (\<forall>e. r = Inl e \<and> kind e = ModelPredictionError \<longrightarrow>
            (\<exists>x s1. pre_transform svc (features request) s = (Inr x, s1))))"
  by (auto simp: predict_def predict_steps_def predict_except_def domain_exception_def
        PredictionResponse_init_def ValueError_def logged_def
      split: prod.splits sum.splits if_splits)

theorem predict_step_order_witness:
  "predict (logged (failing_at ModelPredict not_implemented ''v1''))
       \<lparr>features = example_features\<rparr> ((), [])
     = (Inl \<lparr>kind = ModelPredictionError, message = ''Failed to execute model prediction'',
             details = Some ''not yet implemented''\<rparr>,
        ((), [PreprocessorTransform, ModelPredict]), [PreprocessorTransform, ModelPredict])
   \<and> (\<exists>x s1. pre_transform (failing_at ModelPredict not_implemented ''v1'')
                 (features \<lparr>features = example_features\<rparr>) () = (Inr x, s1))"
proof -
  let ?svc = "failing_at ModelPredict not_implemented ''v1''"
  let ?req = "\<lparr>features = example_features\<rparr>"
  have p: "predict (logged ?svc) ?req ((), [])
     = (Inl \<lparr>kind = ModelPredictionError, message = ''Failed to execute model prediction'',
             details = Some ''not yet implemented''\<rparr>,
        ((), [PreprocessorTransform, ModelPredict]), [PreprocessorTransform, ModelPredict])"
    by (simp add: predict_def predict_steps_def predict_except_def domain_exception_def
          logged_def failing_at_def pure_eff_def py_str_def not_implemented_def)
  show ?thesis
    using predict_step_order [of ?svc ?req "()"] unfolding p by simp
qed

lemma PredictionResponse_init_error:
  "PredictionResponse_init p c v = Inl e \<Longrightarrow> kind e = Builtin ''ValueError''"
  by (auto simp: PredictionResponse_init_def ValueError_def split: if_splits)

text \<open>
  C5. A failure inside \<open>predict\<close> that is none of the three step kinds leaves it as a
  \<open>PredictionServiceError\<close> whose detail is the description of that failure. In
  particular, when the three steps succeed and the construction of the response
  entity raises its validation error, that error is wrapped so.
\<close>

theorem unexpected_failure_wrapped:
  "(predict_steps svc request s = (Inl e, s', calls)
      \<and> kind e \<noteq> PreprocessingError \<and> kind e \<noteq> ModelPredictionError
      \<and> kind e \<noteq> PostprocessingError
    \<longrightarrow> predict svc request s
          = (Inl \<lparr>kind = PredictionServiceError,
                  message = ''Unexpected error during prediction'',
                  details = Some (py_str e)\<rparr>, s', calls))
   \<and> (pre_transform svc (features request) s = (Inr processed_input, s1)
      \<and> m_predict svc processed_input s1 = (Inr raw_prediction, s2)
      \<and> m_version svc s2 = (Inr version, s3)
      \<and> post_transform svc raw_prediction s3 = (Inr processed_output, s4)
      \<and> PredictionResponse_init processed_output
           (calculate_confidence raw_prediction processed_output) version = Inl e
    \<longrightarrow> fst (predict svc request s)
          = Inl \<lparr>kind = PredictionServiceError,
                 message = ''Unexpected error during prediction'',
                 details = Some (py_str e)\<rparr>)"
  by (auto simp: predict_def predict_steps_def predict_except_def domain_exception_def
        dest: PredictionResponse_init_error)

theorem unexpected_failure_wrapped_witness:
  "predict_steps (failing_at ServicePredict not_implemented '''')
       \<lparr>features = example_features\<rparr> ()
     = (Inl (ValueError ''Model version cannot be empty''), (),
        [PreprocessorTransform, ModelPredict, ModelVersion, PostprocessorTransform])
   \<and> kind (ValueError ''Model version cannot be empty'') = Builtin ''ValueError''
   \<and> PredictionResponse_init (PDict [(''prediction'', PInt 42)])
        (calculate_confidence (PInt 42) (PDict [(''prediction'', PInt 42)])) ''''
      = Inl (ValueError ''Model version cannot be empty'')
   \<and> predict (failing_at ServicePredict not_implemented '''') \<lparr>features = example_features\<rparr> ()
     = (Inl \<lparr>kind = PredictionServiceError,
             message = ''Unexpected error during prediction'',
             details = Some ''Model version cannot be empty''\<rparr>, (),
        [PreprocessorTransform, ModelPredict, ModelVersion, PostprocessorTransform])"
proof -
  let ?svc = "failing_at ServicePredict not_implemented ''''"
  let ?req = "\<lparr>features = example_features\<rparr>"
  let ?e = "ValueError ''Model version cannot be empty''"
  let ?out = "PDict [(''prediction'', PInt 42)]"
  have i: "PredictionResponse_init ?out (calculate_confidence (PInt 42) ?out) '''' = Inl ?e"
    by (simp add: PredictionResponse_init_def calculate_confidence_def)
  have st: "predict_steps ?svc ?req ()
     = (Inl ?e, (), [PreprocessorTransform, ModelPredict, ModelVersion, PostprocessorTransform])"
    by (simp add: predict_steps_def failing_at_def pure_eff_def i)
  have k: "kind ?e = Builtin ''ValueError''"
    by (simp add: ValueError_def)
  have c: "pre_transform ?svc (features ?req) () = (Inr (PDict example_features), ())
      \<and> m_predict ?svc (PDict example_features) () = (Inr (PInt 42), ())
      \<and> m_version ?svc () = (Inr '''', ())
      \<and> post_transform ?svc (PInt 42) () = (Inr ?out, ())"
    by (simp add: failing_at_def pure_eff_def)
  show ?thesis
    using unexpected_failure_wrapped
      [of ?svc ?req "()" ?e "()"
          "[PreprocessorTransform, ModelPredict, ModelVersion, PostprocessorTransform]"
          "PDict example_features" "()" "PInt 42" "()" "''''" "()" ?out "()"]
      st k i c
    by (simp add: py_str_def ValueError_def)
qed

text \<open>
  C1. When the service's \<open>predict\<close> raises an error \<open>e\<close>, \<open>post_predict\<close> answers with
  the status that the specification's table gives for the kind of \<open>e\<close>: 400 for
  \<open>PreprocessingError\<close> and \<open>InvalidFeatureError\<close>, 503 for \<open>ModelNotLoadedError\<close> and
  \<open>ModelPredictionError\<close>, 502 for \<open>PostprocessingError\<close>, 500 for
  \<open>PredictionServiceError\<close> and for every other kind. The status is a function of the
  kind alone, so the message and the detail have no part in it.
\<close>

theorem post_predict_status:
  assumes "schema_features request \<noteq> []"
    and "prediction_service \<lparr>features = schema_features request\<rparr> s = (Inl e, s', calls)"
  shows "\<exists>h. post_predict prediction_service request s = (Inl h, s', ServicePredict # calls)
           \<and> status_code h = status_table (kind e)"
  using assms
  by (cases "kind e")
     (simp_all add: post_predict_def PredictionRequest_init_def post_predict_except_def
        status_table_def)

theorem post_predict_status_witness:
  "schema_features \<lparr>schema_features = example_features\<rparr> \<noteq> []
   \<and> predict (failing_at ModelPredict not_implemented ''v1'')
        \<lparr>features = schema_features \<lparr>schema_features = example_features\<rparr>\<rparr> ()
      = (Inl \<lparr>kind = ModelPredictionError, message = ''Failed to execute model prediction'',
              details = Some ''not yet implemented''\<rparr>, (),
         [PreprocessorTransform, ModelPredict])
   \<and> (\<exists>h. post_predict (predict (failing_at ModelPredict not_implemented ''v1''))
              \<lparr>schema_features = example_features\<rparr> ()
            = (Inl h, (), [ServicePredict, PreprocessorTransform, ModelPredict])
          \<and> status_code h = 503)"
proof -
  let ?svc = "predict (failing_at ModelPredict not_implemented ''v1'')"
  let ?req = "\<lparr>schema_features = example_features\<rparr>"
  let ?e = "\<lparr>kind = ModelPredictionError, message = ''Failed to execute model prediction'',
              details = Some ''not yet implemented''\<rparr>"
  have a: "schema_features ?req \<noteq> []"
    by (simp add: example_features_def)
  have b: "?svc \<lparr>features = schema_features ?req\<rparr> ()
             = (Inl ?e, (), [PreprocessorTransform, ModelPredict])"
    by (simp add: predict_def predict_steps_def predict_except_def domain_exception_def
          failing_at_def pure_eff_def py_str_def not_implemented_def)
  show ?thesis
    using post_predict_status
      [of ?req ?svc "()" ?e "()" "[PreprocessorTransform, ModelPredict]"] a b
    by (simp add: status_table_def)
qed

text \<open>
  C7 (as the code has it). The end-to-end scenario yields the prediction
  \<open>{"forecast": [150, 180, 200], "format": "json"}\<close>, in which the forecast holds the
  integers of the model stub as they are (the default postprocessor copies a list and
  converts nothing), with confidence 0.8 and model version \<open>v1.0.0\<close>.
\<close>

theorem example_response:
  "predict example_service \<lparr>features = example_features\<rparr> ()
     = (Inr \<lparr>prediction = PDict [(''forecast'', PList [PInt 150, PInt 180, PInt 200]),
                                 (''format'', PStr ''json'')],
             confidence = 0.8, model_version = ''v1.0.0''\<rparr>,
        (), [PreprocessorTransform, ModelPredict, ModelVersion, PostprocessorTransform])"
  by code_simp

text \<open>
  C7 as stated fails: the response of the scenario is not the one whose forecast is
  the list of floats \<open>[150.0, 180.0, 200.0]\<close>.
\<close>

theorem example_response_counterexample:
  "fst (predict example_service \<lparr>features = example_features\<rparr> ())
     \<noteq> Inr \<lparr>prediction = PDict [(''forecast'', PList [PFloat 150, PFloat 180, PFloat 200]),
                                 (''format'', PStr ''json'')],
             confidence = 0.8, model_version = ''v1.0.0''\<rparr>"
  by code_simp

text \<open>
  C8. The entity \<open>PredictionRequest\<close> cannot be constructed from the empty feature
  mapping, and the validator of the request schema rejects it. A request at the
  boundary whose features are empty is rejected with no call made, so the service's
  \<open>predict\<close> is not invoked; the controller itself, handed a schema with empty
  features, raises before it calls the service.
\<close>

theorem empty_features_rejected:
  "PredictionRequest_init [] = Inl (ValueError ''Features dictionary cannot be empty'')
   \<and> validate_features_not_empty [] = Inl (ValueError ''Features dictionary cannot be empty'')
   \<and> handle_predict_request prediction_controller [] s
       = (Rejected (ValueError ''Features dictionary cannot be empty''), s, [])
   \<and> post_predict prediction_service \<lparr>schema_features = []\<rparr> s
       = (Inl (post_predict_except (ValueError ''Features dictionary cannot be empty'')), s, [])"
  by (simp add: PredictionRequest_init_def validate_features_not_empty_def
        handle_predict_request_def PredictionRequestSchema_init_def post_predict_def)

lemma dict_contains_map_of: "dict_contains d k \<longleftrightarrow> map_of d k \<noteq> None"
  by (simp add: dict_contains_def map_of_eq_None_iff)

text \<open>
  C10. The default preprocessor's \<open>transform\<close> raises a \<open>PreprocessingError\<close> for a
  feature mapping without the key \<open>product_id\<close> and for one that maps \<open>product_id\<close> to
  \<open>None\<close>, whatever feature mapping it was built with; for a mapping with a
  \<open>product_id\<close> that is not \<open>None\<close> the validation of required features succeeds.
\<close>

theorem required_product_id:
  "(\<not> dict_contains fs ''product_id'' \<longrightarrow>
      DefaultPreprocessor_transform fm fs
        = Inl \<lparr>kind = PreprocessingError, message = ''Failed to preprocess input features'',
               details = Some ''Required feature missing: product_id''\<rparr>)
   \<and> (map_of fs ''product_id'' = Some PNone \<longrightarrow>
      DefaultPreprocessor_transform fm fs
        = Inl \<lparr>kind = PreprocessingError, message = ''Failed to preprocess input features'',
               details = Some ''Feature cannot be null: product_id''\<rparr>)
   \<and> (dict_contains fs ''product_id'' \<and> map_of fs ''product_id'' \<noteq> Some PNone \<longrightarrow>
      validate_features fs = Inr ())"
  by (simp add: DefaultPreprocessor_transform_def DefaultPreprocessor_steps_def
        validate_features_def required_features_def domain_exception_def py_str_def
        dict_contains_map_of)

theorem required_product_id_witness:
  "\<not> dict_contains [(''season'', PStr ''Winter'')] ''product_id''
   \<and> DefaultPreprocessor_transform [] [(''season'', PStr ''Winter'')]
        = Inl \<lparr>kind = PreprocessingError, message = ''Failed to preprocess input features'',
               details = Some ''Required feature missing: product_id''\<rparr>
   \<and> map_of [(''product_id'', PNone)] ''product_id'' = Some PNone
   \<and> DefaultPreprocessor_transform [] [(''product_id'', PNone)]
        = Inl \<lparr>kind = PreprocessingError, message = ''Failed to preprocess input features'',
               details = Some ''Feature cannot be null: product_id''\<rparr>
   \<and> dict_contains example_features ''product_id''
   \<and> map_of example_features ''product_id'' \<noteq> Some PNone
   \<and> validate_features example_features = Inr ()"
  using required_product_id [of "[(''season'', PStr ''Winter'')]" "[]"]
    required_product_id [of "[(''product_id'', PNone)]" "[]"]
    required_product_id [of example_features "[]"]
  by (simp add: dict_contains_def example_features_def)

text \<open>
  C4. An exception of one of the three named kinds that a step of \<open>predict\<close> raises
  leaves \<open>predict\<close> as that very exception, with its kind, its message and its detail,
  in the state and after the calls of the step: the outer handler re-raises it and
  wraps nothing. The steps are the three \<open>try\<close> blocks of \<open>predict\<close>; what a
  collaborator raises inside a step is turned into the step's exception there.
\<close>

theorem named_kinds_propagate:
  assumes "predict_steps svc request s = (Inl e, s', calls)"
    and "kind e = PreprocessingError \<or> kind e = ModelPredictionError
           \<or> kind e = PostprocessingError"
  shows "predict svc request s = (Inl e, s', calls)"
  using assms by (auto simp: predict_def predict_except_def)

theorem named_kinds_propagate_witness:
  "predict_steps (failing_at PreprocessorTransform bad_output ''v1'')
       \<lparr>features = example_features\<rparr> ()
     = (Inl \<lparr>kind = PreprocessingError, message = ''Failed to preprocess input features'',
             details = Some ''bad output''\<rparr>, (), [PreprocessorTransform])
   \<and> predict (failing_at PreprocessorTransform bad_output ''v1'')
       \<lparr>features = example_features\<rparr> ()
     = (Inl \<lparr>kind = PreprocessingError, message = ''Failed to preprocess input features'',
             details = Some ''bad output''\<rparr>, (), [PreprocessorTransform])
   \<and> predict_steps (failing_at ModelPredict bad_output ''v1'')
       \<lparr>features = example_features\<rparr> ()
     = (Inl \<lparr>kind = ModelPredictionError, message = ''Failed to execute model prediction'',
             details = Some ''bad output''\<rparr>, (), [PreprocessorTransform, ModelPredict])
   \<and> predict (failing_at ModelPredict bad_output ''v1'') \<lparr>features = example_features\<rparr> ()
     = (Inl \<lparr>kind = ModelPredictionError, message = ''Failed to execute model prediction'',
             details = Some ''bad output''\<rparr>, (), [PreprocessorTransform, ModelPredict])
   \<and> predict_steps (failing_at PostprocessorTransform bad_output ''v1'')
       \<lparr>features = example_features\<rparr> ()
     = (Inl \<lparr>kind = PostprocessingError, message = ''Failed to postprocess model output'',
             details = Some ''bad output''\<rparr>, (),
        [PreprocessorTransform, ModelPredict, ModelVersion, PostprocessorTransform])
   \<and> predict (failing_at PostprocessorTransform bad_output ''v1'')
       \<lparr>features = example_features\<rparr> ()
     = (Inl \<lparr>kind = PostprocessingError, message = ''Failed to postprocess model output'',
             details = Some ''bad output''\<rparr>, (),
        [PreprocessorTransform, ModelPredict, ModelVersion, PostprocessorTransform])"
proof -
  let ?req = "\<lparr>features = example_features\<rparr>"
  let ?e1 = "\<lparr>kind = PreprocessingError, message = ''Failed to preprocess input features'',
             details = Some ''bad output''\<rparr>"
  let ?e2 = "\<lparr>kind = ModelPredictionError, message = ''Failed to execute model prediction'',
             details = Some ''bad output''\<rparr>"
  let ?e3 = "\<lparr>kind = PostprocessingError, message = ''Failed to postprocess model output'',
             details = Some ''bad output''\<rparr>"
  have h1: "predict_steps (failing_at PreprocessorTransform bad_output ''v1'') ?req ()
              = (Inl ?e1, (), [PreprocessorTransform])"
    by (simp add: predict_steps_def domain_exception_def failing_at_def pure_eff_def
          py_str_def bad_output_def)
  have h2: "predict_steps (failing_at ModelPredict bad_output ''v1'') ?req ()
              = (Inl ?e2, (), [PreprocessorTransform, ModelPredict])"
    by (simp add: predict_steps_def domain_exception_def failing_at_def pure_eff_def
          py_str_def bad_output_def)
  have h3: "predict_steps (failing_at PostprocessorTransform bad_output ''v1'') ?req ()
              = (Inl ?e3, (),
                 [PreprocessorTransform, ModelPredict, ModelVersion, PostprocessorTransform])"
    by (simp add: predict_steps_def domain_exception_def failing_at_def pure_eff_def
          py_str_def bad_output_def)
  have c1: "predict (failing_at PreprocessorTransform bad_output ''v1'') ?req ()
              = (Inl ?e1, (), [PreprocessorTransform])"
    by (rule named_kinds_propagate [OF h1]) simp
  have c2: "predict (failing_at ModelPredict bad_output ''v1'') ?req ()
              = (Inl ?e2, (), [PreprocessorTransform, ModelPredict])"
    by (rule named_kinds_propagate [OF h2]) simp
  have c3: "predict (failing_at PostprocessorTransform bad_output ''v1'') ?req ()
              = (Inl ?e3, (),
                 [PreprocessorTransform, ModelPredict, ModelVersion, PostprocessorTransform])"
    by (rule named_kinds_propagate [OF h3]) simp
  show ?thesis
    using h1 h2 h3 c1 c2 c3 by simp
qed

end
